theory Spec2Isabelle
  imports Complex_Main
begin

section \<open>Numbers\<close>

text \<open>
  The program is TypeScript; every numeric field has the type \<^verbatim>\<open>number\<close>. The model
  takes a \<^verbatim>\<open>number\<close> to be a finite value and computes with it exactly, as a rational:
  the rounding error of the IEEE-754 operations, \<^verbatim>\<open>NaN\<close> and the infinities are not
  modelled. Every division of the source that is modelled here is guarded by the source
  itself (\<^verbatim>\<open>total > 0\<close>, \<^verbatim>\<open>durationSeconds > 0\<close>, a non-empty list) or is a division by
  a non-zero literal, except the one in the ramp of \<^verbatim>\<open>getConcurrencyAtWithDuration\<close>,
  which is discussed there.
\<close>

type_synonym number = rat

text \<open>\<^verbatim>\<open>Math.round\<close> rounds to the nearest integer, a tie towards plus infinity.\<close>

definition Math_round :: "number \<Rightarrow> number" where
  "Math_round x = of_int \<lfloor>x + 1 / 2\<rfloor>"


text \<open>
  The idiom \<^verbatim>\<open>Math.round(x * 100) / 100\<close> of the source is not a function there; it is
  written out at each place in the model too. A value has two decimals when it is a whole
  number of hundredths.
\<close>

definition two_decimals :: "number \<Rightarrow> bool" where
  "two_decimals x \<longleftrightarrow> of_int \<lfloor>x * 100\<rfloor> = x * 100"

section \<open>Data model (src/lib/types.ts)\<close>

record RequestResult =
  responseTimeMs :: number
  success :: bool
  statusCode :: "number option"
  error :: "string option"
  timestamp :: number

record LoadTestMetrics =
  totalRequests :: number
  successfulRequests :: number
  failedRequests :: number
  errorRatePercentage :: number
  requestsPerSecond :: number
  avgResponseTime :: number
  minResponseTime :: number
  maxResponseTime :: number
  p95ResponseTime :: number
  p99ResponseTime :: number
  timeoutCount :: number
  timeoutRatePercentage :: number

section \<open>The HTTP requester (runOneRequest, in src/lib/engine.ts)\<close>

text \<open>
  \<^verbatim>\<open>runOneRequest\<close> waits for the rate limiter, reads the clock, awaits \<^verbatim>\<open>fetch\<close> and
  reads the clock again. What \<^verbatim>\<open>fetch\<close> did is an input of the model: it returned a
  response with a status, or it threw, an \<^verbatim>\<open>Error\<close> with a message or some other value.
  \<^verbatim>\<open>runOneRequest_result start finish outcome\<close> is the record the function then returns,
  \<open>start\<close> and \<open>finish\<close> being the two readings of \<^verbatim>\<open>Date.now()\<close>.
\<close>

datatype FetchOutcome = Responded number | ThrewError string | ThrewOther

text \<open>\<^verbatim>\<open>message.includes(s)\<close>: \<open>s\<close> occurs in \<open>message\<close> as a contiguous run.\<close>

fun string_includes :: "string \<Rightarrow> string \<Rightarrow> bool" where
  "string_includes [] s = (s = [])"
| "string_includes (c # cs) s = (take (length s) (c # cs) = s \<or> string_includes cs s)"

definition runOneRequest_result :: "number \<Rightarrow> number \<Rightarrow> FetchOutcome \<Rightarrow> RequestResult" where
  "runOneRequest_result start finish outcome =
     (case outcome of
        Responded status \<Rightarrow>
          (let elapsed = finish - start;
               success = (status < 400)
           in \<lparr>responseTimeMs = elapsed, success = success, statusCode = Some status,
               error = None, timestamp = start\<rparr>)
      | _ \<Rightarrow>
          (let elapsed = finish - start;
               message = (case outcome of ThrewError m \<Rightarrow> m | _ \<Rightarrow> ''Unknown error'');
               isTimeout = (string_includes message ''abort'' \<or> message = ''The operation was aborted.'')
           in \<lparr>responseTimeMs = elapsed, success = False, statusCode = None,
               error = Some (if isTimeout then ''timeout'' else message), timestamp = start\<rparr>))"

text \<open>A result carries an error tag only when its success flag is false.\<close>

definition error_only_on_failure :: "RequestResult \<Rightarrow> bool" where
  "error_only_on_failure r \<longleftrightarrow> (error r \<noteq> None \<longrightarrow> \<not> success r)"

text \<open>
  The workers push each result of \<^verbatim>\<open>runOneRequest\<close> onto \<^verbatim>\<open>state.requestResults\<close>, and
  nothing else is ever pushed. So the request results of a test are the results of its
  requests in the order in which they completed; a request is given here by its two clock
  readings and the outcome of its \<^verbatim>\<open>fetch\<close>.
\<close>

definition requestResultsOf :: "(number \<times> number \<times> FetchOutcome) list \<Rightarrow> RequestResult list" where
  "requestResultsOf requests =
     map (\<lambda>(start, finish, outcome). runOneRequest_result start finish outcome) requests"

section \<open>The metrics aggregator (percentile and computeMetrics, in src/lib/store.ts)\<close>

text \<open>
  \<^verbatim>\<open>percentile\<close> is private to its module and has two call sites, with \<open>p = 0.95\<close> and
  \<open>p = 0.99\<close> on a non-empty array. There both indices are inside the array (lemma
  \<open>percentile_indices_in_range\<close> below), so the model reads the list with \<open>!\<close>; for
  a \<open>p\<close> outside \<open>[0, 1]\<close> JavaScript would read \<^verbatim>\<open>undefined\<close>, which the model does
  not describe.
\<close>

definition percentile :: "number list \<Rightarrow> number \<Rightarrow> number" where
  "percentile sortedValues p =
     (if length sortedValues = 0 then 0
      else
        let index = (of_nat (length sortedValues) - 1) * p;
            lower = \<lfloor>index\<rfloor>;
            upper = \<lceil>index\<rceil>
        in if lower = upper then sortedValues ! nat lower
           else sortedValues ! nat lower
                + (index - of_int lower) * (sortedValues ! nat upper - sortedValues ! nat lower))"

text \<open>
  \<^verbatim>\<open>[...responseTimes].sort((a, b) => a - b)\<close> sorts a copy ascending; \<^verbatim>\<open>reduce\<close>
  with \<^verbatim>\<open>(a, b) => a + b\<close> and \<open>0\<close> is a left fold.
\<close>

definition computeMetrics :: "RequestResult list \<Rightarrow> number \<Rightarrow> LoadTestMetrics" where
  "computeMetrics results durationSeconds =
     (let total = (of_nat (length results) :: number);
          successful = (of_nat (length (filter success results)) :: number);
          failed = total - successful;
          timeoutCount =
            (of_nat (length (filter (\<lambda>r. error r = Some ''timeout'') results)) :: number);
          errorRate =
            (if total > 0 then Math_round ((failed / total) * 100 * 100) / 100 else 0);
          timeoutRatePercentage =
            (if total > 0 then Math_round ((timeoutCount / total) * 100 * 100) / 100 else 0);
          rps =
            (if durationSeconds > 0 then Math_round ((total / durationSeconds) * 100) / 100
             else 0);
          responseTimes = map responseTimeMs (filter success results);
          sorted = sort responseTimes;
          avgResponseTime =
            (if length responseTimes > 0
             then Math_round
                    ((foldl (+) 0 responseTimes / of_nat (length responseTimes)) * 100) / 100
             else 0);
          minResponseTime = (if length sorted > 0 then sorted ! 0 else 0);
          maxResponseTime = (if length sorted > 0 then sorted ! (length sorted - 1) else 0);
          p95ResponseTime =
            (if length sorted > 0 then Math_round (percentile sorted (95 / 100) * 100) / 100
             else 0);
          p99ResponseTime =
            (if length sorted > 0 then Math_round (percentile sorted (99 / 100) * 100) / 100
             else 0)
      in \<lparr>totalRequests = total,
          successfulRequests = successful,
          failedRequests = failed,
          errorRatePercentage = errorRate,
          requestsPerSecond = rps,
          avgResponseTime = avgResponseTime,
          minResponseTime = minResponseTime,
          maxResponseTime = maxResponseTime,
          p95ResponseTime = p95ResponseTime,
          p99ResponseTime = p99ResponseTime,
          timeoutCount = timeoutCount,
          timeoutRatePercentage = timeoutRatePercentage\<rparr>)"

text \<open>
  The specification's percentile, from its words: linear interpolation at the fractional
  rank \<open>i = (L - 1) * p\<close>, where \<open>L\<close> is the length; for the rank \<open>i\<close> the value is
  \<open>v[floor i] + (i - floor i) * (v[ceil i] - v[floor i])\<close>. The source has one branch
  more (it returns \<open>v[floor i]\<close> when the rank is whole).
\<close>

definition interpolate_at :: "number list \<Rightarrow> number \<Rightarrow> number" where
  "interpolate_at v i =
     v ! nat \<lfloor>i\<rfloor> + (i - of_int \<lfloor>i\<rfloor>) * (v ! nat \<lceil>i\<rceil> - v ! nat \<lfloor>i\<rfloor>)"

definition spec_interpolation :: "number list \<Rightarrow> number \<Rightarrow> number" where
  "spec_interpolation v p = interpolate_at v ((of_nat (length v) - 1) * p)"

text \<open>The successful response times of a result list, in the order of the list.\<close>

definition successTimes :: "RequestResult list \<Rightarrow> number list" where
  "successTimes results = map responseTimeMs (filter success results)"

text \<open>Successful results with the given response times, for the scenarios.\<close>

definition successes :: "number list \<Rightarrow> RequestResult list" where
  "successes ts =
     map (\<lambda>t. \<lparr>responseTimeMs = t, success = True, statusCode = Some 200, error = None,
               timestamp = 0\<rparr>) ts"

section \<open>Load patterns (getConcurrencyAtWithDuration, in src/lib/load-patterns.ts)\<close>

datatype LoadPatternType = fixed_concurrency | fixed_rps | ramp_up | spike

record LoadPatternConfig =
  type :: LoadPatternType
  targetRps :: "number option"
  rampUpSeconds :: "number option"
  spikeConcurrency :: "number option"
  spikeDurationSeconds :: "number option"



section \<open>The threshold evaluator (evaluateThresholds and shouldAutoStop, in src/unnamed/part_003)\<close>

record PerformanceThresholds =
  maxErrorRatePercent :: "number option"
  maxP95LatencyMs :: "number option"
  minSuccessRatePercent :: "number option"

datatype ThresholdVerdict = PASS | DEGRADED | FAIL

text \<open>\<^verbatim>\<open>keyof PerformanceThresholds\<close>: the three field names, as values.\<close>

datatype ThresholdKey = Key_maxErrorRatePercent | Key_maxP95LatencyMs | Key_minSuccessRatePercent

text \<open>
  The message of a reason is a template string with two numbers formatted into it. The
  model keeps which template it is and the two numbers, not the rendered text.
\<close>

datatype ReasonMessage =
    ErrorRateExceedsMax number number
  | SuccessRateBelowMin number number
  | P95LatencyExceedsMax number number

record VerdictReason =
  threshold :: ThresholdKey
  message :: ReasonMessage
  actual :: "number option"
  limit :: "number option"








section \<open>The safety scorer (computeSafetyScore, in src/unnamed/part_005)\<close>

datatype SafetyLabel = SAFE | WARNING | DANGEROUS

text \<open>
  The explanation is the sentences of the applied penalties joined by a blank, or a fixed
  sentence when there is none. As for the messages of the verdict reasons, the model keeps
  which sentence it is and the numbers formatted into it.
\<close>

datatype ScoreReason =
    HttpErrorRateReduced number number
  | TimeoutRateReduced number number
  | HighP95Reduced number number
  | HighAvgLatencyReduced number number
  | LowThroughputReduced number number

datatype Explanation = Joined "ScoreReason list" | NoSignificantIssues

record SafetyScore =
  score :: number
  label :: SafetyLabel
  explanation :: Explanation





section \<open>The history ring (addToHistory and getHistory, in src/unnamed/part_000)\<close>

datatype Method = GET | POST

record LoadTestConfig =
  targetUrl :: string
  httpMethod :: Method
  concurrentUsers :: number
  durationSeconds :: number
  requestTimeoutMs :: number
  thresholds :: "PerformanceThresholds option"
  loadPattern :: "LoadPatternConfig option"

datatype TestVerdict = OK | UNSTABLE | CRITICAL

record TimeSeriesPoint =
  time :: number
  responseTime :: number
  errorRate :: number
  successCount :: number
  failCount :: number

text \<open>
  Three fields of the history record and one of the configuration have other names here,
  the source's being taken: \<^verbatim>\<open>id\<close> is \<open>testId\<close>, \<^verbatim>\<open>verdict\<close> is \<open>legacyVerdict\<close>,
  \<^verbatim>\<open>firstViolationAt\<close> is \<open>firstViolation\<close>, and the configuration's HTTP verb is
  \<open>httpMethod\<close>.
\<close>

record TestHistoryRecord =
  testId :: string
  config :: LoadTestConfig
  metrics :: LoadTestMetrics
  safetyScore :: "SafetyScore option"
  legacyVerdict :: TestVerdict
  thresholdVerdict :: "ThresholdVerdict option"
  verdictReasons :: "VerdictReason list option"
  firstViolation :: "number option"
  startedAt :: number
  completedAt :: number
  timeSeries :: "TimeSeriesPoint list option"

definition MAX_HISTORY :: nat where "MAX_HISTORY = 100"

text \<open>
  The module holds one array, \<^verbatim>\<open>history\<close>, empty when the module is loaded. The model
  passes it explicitly: \<^verbatim>\<open>addToHistory\<close> returns the array after \<^verbatim>\<open>unshift\<close> and the
  conditional \<^verbatim>\<open>pop\<close>, \<^verbatim>\<open>getHistory\<close> returns a copy of it.
\<close>

definition addToHistory :: "TestHistoryRecord \<Rightarrow> TestHistoryRecord list \<Rightarrow> TestHistoryRecord list" where
  "addToHistory record history =
     (let history1 = record # history
      in if length history1 > MAX_HISTORY then butlast history1 else history1)"

definition getHistory :: "TestHistoryRecord list \<Rightarrow> TestHistoryRecord list" where
  "getHistory history = history"

text \<open>The history after the insertions \<open>rs\<close>, first to last, into the empty array.\<close>

definition historyAfter :: "TestHistoryRecord list \<Rightarrow> TestHistoryRecord list" where
  "historyAfter rs = foldl (\<lambda>h r. addToHistory r h) [] rs"

section \<open>Sample values\<close>







text \<open>
  Response times of twenty-one successes, twenty of them immediate and one very slow.
\<close>

definition skewed_times :: "number list" where
  "skewed_times = [0, 0, 0, 0, 0, 0, 0, 0, 0, 0, 0, 0, 0, 0, 0, 0, 0, 0, 0, 0, 2100]"

section \<open>Evaluating floors of quotients\<close>

lemma floor_numeral_quotient [simp]:
  "\<lfloor>(numeral a :: rat) / numeral b\<rfloor> = numeral a div numeral b"
  using floor_divide_of_int_eq [of "numeral a" "numeral b", where ?'a = rat] by simp

lemma ceiling_numeral_quotient [simp]:
  "\<lceil>(numeral a :: rat) / numeral b\<rceil> = - (- numeral a div numeral b)"
  using ceiling_divide_eq_div [of "numeral a" "numeral b", where ?'a = rat] by simp

lemma floor_one_numeral_quotient [simp]:
  "\<lfloor>(1 :: rat) / numeral b\<rfloor> = 1 div numeral b"
  using floor_divide_of_int_eq [of 1 "numeral b", where ?'a = rat] by simp

section \<open>Counting invariants of the metrics\<close>

lemma runOneRequest_result_error_only_on_failure:
  "error_only_on_failure (runOneRequest_result start finish outcome)"
  by (cases outcome) (simp_all add: runOneRequest_result_def error_only_on_failure_def Let_def)

lemma timeouts_among_failures:
  assumes "\<forall>r \<in> set results. error_only_on_failure r"
  shows "length (filter (\<lambda>r. error r = Some ''timeout'') results)
         + length (filter success results) \<le> length results"
  using assms
proof (induction results)
  case Nil
  then show ?case by simp
next
  case (Cons r rs)
  then show ?case by (auto simp: error_only_on_failure_def)
qed

lemma requestResultsOf_error_only_on_failure:
  "\<forall>r \<in> set (requestResultsOf requests). error_only_on_failure r"
  by (auto simp add: requestResultsOf_def runOneRequest_result_error_only_on_failure)

text \<open>
  Claim C1. The metrics that \<^verbatim>\<open>computeMetrics\<close> returns satisfy
  successfulRequests + failedRequests = totalRequests for every result list, and
  timeoutCount \<open>\<le>\<close> failedRequests for every result list whose elements carry an error
  tag only when their success flag is false. The request results of a test are such a
  list, whatever its requests did, and the metrics of a completed test are
  \<^verbatim>\<open>computeMetrics\<close> of its request results: there both properties hold.
\<close>

theorem computeMetrics_counts:
  "successfulRequests (computeMetrics results d) + failedRequests (computeMetrics results d)
     = totalRequests (computeMetrics results d)
   \<and> ((\<forall>r \<in> set results. error_only_on_failure r) \<longrightarrow>
        timeoutCount (computeMetrics results d) \<le> failedRequests (computeMetrics results d))
   \<and> timeoutCount (computeMetrics (requestResultsOf requests) d)
       \<le> failedRequests (computeMetrics (requestResultsOf requests) d)"
proof -
  have sum: "successfulRequests (computeMetrics rs d) + failedRequests (computeMetrics rs d)
     = totalRequests (computeMetrics rs d)" for rs
    by (simp add: computeMetrics_def Let_def)
  have le: "timeoutCount (computeMetrics rs d) \<le> failedRequests (computeMetrics rs d)"
    if h: "\<forall>r \<in> set rs. error_only_on_failure r" for rs
  proof -
    have "(of_nat (length (filter (\<lambda>r. error r = Some ''timeout'') rs)
             + length (filter success rs)) :: number) \<le> of_nat (length rs)"
      using timeouts_among_failures [OF h] by (simp only: of_nat_le_iff)
    then show ?thesis by (simp add: computeMetrics_def Let_def)
  qed
  from sum [of results] le [of results] le [OF requestResultsOf_error_only_on_failure]
  show ?thesis by blast
qed

theorem computeMetrics_counts_witness:
  "list_all error_only_on_failure
     (requestResultsOf [(0, 120, Responded 200),
                        (5, 5005, ThrewError ''This operation was aborted''),
                        (9, 40, Responded 503)])
   \<and> map error
        (requestResultsOf [(0, 120, Responded 200),
                           (5, 5005, ThrewError ''This operation was aborted''),
                           (9, 40, Responded 503)])
       = [None, Some ''timeout'', None]
   \<and> successfulRequests (computeMetrics
        (requestResultsOf [(0, 120, Responded 200),
                           (5, 5005, ThrewError ''This operation was aborted''),
                           (9, 40, Responded 503)]) 5)
       + failedRequests (computeMetrics
        (requestResultsOf [(0, 120, Responded 200),
                           (5, 5005, ThrewError ''This operation was aborted''),
                           (9, 40, Responded 503)]) 5)
       = totalRequests (computeMetrics
        (requestResultsOf [(0, 120, Responded 200),
                           (5, 5005, ThrewError ''This operation was aborted''),
                           (9, 40, Responded 503)]) 5)
   \<and> timeoutCount (computeMetrics
        (requestResultsOf [(0, 120, Responded 200),
                           (5, 5005, ThrewError ''This operation was aborted''),
                           (9, 40, Responded 503)]) 5)
       \<le> failedRequests (computeMetrics
        (requestResultsOf [(0, 120, Responded 200),
                           (5, 5005, ThrewError ''This operation was aborted''),
                           (9, 40, Responded 503)]) 5)"
proof -
  have h: "\<forall>r \<in> set (requestResultsOf [(0, 120, Responded 200),
                        (5, 5005, ThrewError ''This operation was aborted''),
                        (9, 40, Responded 503)]). error_only_on_failure r"
    by (simp add: requestResultsOf_def runOneRequest_result_def error_only_on_failure_def)
  have e: "map error
        (requestResultsOf [(0, 120, Responded 200),
                           (5, 5005, ThrewError ''This operation was aborted''),
                           (9, 40, Responded 503)])
       = [None, Some ''timeout'', None]"
    by (simp add: requestResultsOf_def runOneRequest_result_def)
  from computeMetrics_counts [of
      "requestResultsOf [(0, 120, Responded 200),
                         (5, 5005, ThrewError ''This operation was aborted''),
                         (9, 40, Responded 503)]" 5] h e
  show ?thesis by (simp only: list_all_iff simp_thms)
qed

section \<open>The threshold evaluator\<close>









section \<open>The auto-stop policy\<close>




section \<open>The history ring\<close>

lemma addToHistory_take:
  "length h \<le> MAX_HISTORY \<Longrightarrow> addToHistory r h = take MAX_HISTORY (r # h)"
  by (cases "length h = MAX_HISTORY")
     (simp_all add: addToHistory_def Let_def MAX_HISTORY_def butlast_conv_take)

lemma historyAfter_snoc: "historyAfter (rs @ [r]) = addToHistory r (historyAfter rs)"
  by (simp add: historyAfter_def)

lemma historyAfter_take: "historyAfter rs = take MAX_HISTORY (rev rs)"
proof (induction rs rule: rev_induct)
  case Nil
  show ?case by (simp add: historyAfter_def)
next
  case (snoc r rs)
  have "historyAfter (rs @ [r]) = addToHistory r (take MAX_HISTORY (rev rs))"
    by (simp add: historyAfter_snoc snoc.IH)
  also have "\<dots> = take MAX_HISTORY (r # take MAX_HISTORY (rev rs))"
    by (rule addToHistory_take) simp
  also have "\<dots> = take MAX_HISTORY (rev (rs @ [r]))"
    by (simp add: MAX_HISTORY_def take_Cons')
  finally show ?case .
qed

text \<open>
  Claim C10. After any sequence of insertions into the empty history, \<^verbatim>\<open>getHistory()\<close>
  returns the last 100 inserted records at most, the most recent first; an insertion
  puts the new record in front, and drops the last (oldest) record when there were 100
  already.
\<close>

theorem history_bounded_newest_first:
  "getHistory (historyAfter rs) = take 100 (rev rs)
   \<and> length (getHistory (historyAfter rs)) \<le> 100
   \<and> getHistory (addToHistory r (historyAfter rs))
       = r # (if length (historyAfter rs) < 100 then historyAfter rs
              else butlast (historyAfter rs))"
proof -
  have a: "historyAfter rs = take 100 (rev rs)"
    using historyAfter_take [of rs] by (simp add: MAX_HISTORY_def)
  have b: "length (historyAfter rs) \<le> 100" by (simp add: a)
  have c: "addToHistory r (historyAfter rs)
       = r # (if length (historyAfter rs) < 100 then historyAfter rs
              else butlast (historyAfter rs))"
    using b by (cases "historyAfter rs" rule: rev_cases) (auto simp add: addToHistory_def Let_def MAX_HISTORY_def)
  show ?thesis using a b c by (simp add: getHistory_def)
qed

section \<open>Load patterns\<close>







section \<open>The safety scorer\<close>









section \<open>Percentiles\<close>

lemma percentile_indices_in_range:
  fixes p :: number
  assumes "v \<noteq> []" "0 \<le> p" "p \<le> 1"
  shows "nat \<lfloor>(of_nat (length v) - 1) * p\<rfloor> < length v
         \<and> nat \<lceil>(of_nat (length v) - 1) * p\<rceil> < length v"
proof -
  define L where "L = length v"
  have L: "0 < L" using assms(1) by (simp add: L_def)
  then have L1: "(0::number) \<le> of_nat L - 1" by (simp add: Suc_le_eq)
  have "(of_nat L - 1) * p \<le> (of_nat L - 1) * 1"
    using L1 assms(3) by (rule mult_left_mono [rotated])
  then have up: "(of_nat L - 1) * p \<le> of_int (int L - 1)" by simp
  then have "\<lceil>(of_nat L - 1) * p\<rceil> \<le> int L - 1" by (simp only: ceiling_le_iff)
  moreover have "\<lfloor>(of_nat L - 1) * p\<rfloor> \<le> \<lceil>(of_nat L - 1) * p\<rceil>"
    by (rule floor_le_ceiling)
  ultimately show ?thesis using L unfolding L_def [symmetric] by linarith
qed

lemma percentile_interpolate_at:
  "v \<noteq> [] \<Longrightarrow> percentile v p = spec_interpolation v p"
  by (simp add: percentile_def spec_interpolation_def interpolate_at_def Let_def)

lemma foldl_plus_sum_list: "foldl (+) a xs = a + sum_list (xs :: number list)"
  by (induction xs arbitrary: a) (simp_all add: add.assoc)


lemma sort_eq_Nil_iff: "sort xs = [] \<longleftrightarrow> xs = []"
  by (metis length_sort length_0_conv)

lemma computeMetrics_minResponseTime:
  "minResponseTime (computeMetrics R d) =
     (if successTimes R = [] then 0 else sort (successTimes R) ! 0)"
  by (simp add: computeMetrics_def successTimes_def Let_def sort_eq_Nil_iff)

lemma computeMetrics_maxResponseTime:
  "maxResponseTime (computeMetrics R d) =
     (if successTimes R = [] then 0
      else sort (successTimes R) ! (length (sort (successTimes R)) - 1))"
  by (simp add: computeMetrics_def successTimes_def Let_def sort_eq_Nil_iff)

lemma computeMetrics_avgResponseTime:
  "avgResponseTime (computeMetrics R d) =
     (if successTimes R = [] then 0
      else Math_round (sum_list (successTimes R) / of_nat (length (successTimes R)) * 100) / 100)"
  by (simp add: computeMetrics_def successTimes_def Let_def foldl_plus_sum_list)

lemma computeMetrics_p95ResponseTime:
  "p95ResponseTime (computeMetrics R d) =
     (if successTimes R = [] then 0
      else Math_round (percentile (sort (successTimes R)) (95 / 100) * 100) / 100)"
  by (simp add: computeMetrics_def successTimes_def Let_def sort_eq_Nil_iff)

lemma computeMetrics_p99ResponseTime:
  "p99ResponseTime (computeMetrics R d) =
     (if successTimes R = [] then 0
      else Math_round (percentile (sort (successTimes R)) (99 / 100) * 100) / 100)"
  by (simp add: computeMetrics_def successTimes_def Let_def sort_eq_Nil_iff)



section \<open>Rounding and ranges of the metrics\<close>

lemma Math_round_mono: "x \<le> y \<Longrightarrow> Math_round x \<le> Math_round y"
  by (simp add: Math_round_def floor_mono)

lemma round2_mono: "x \<le> y \<Longrightarrow> Math_round (x * 100) / 100 \<le> Math_round (y * 100) / 100"
  by (simp add: Math_round_mono divide_right_mono)

lemma Math_round_of_int: "Math_round (of_int k) = of_int k"
proof -
  have "\<lfloor>(of_int k :: number) + 1 / 2\<rfloor> = k" by linarith
  then show ?thesis by (simp only: Math_round_def)
qed

lemma round2_fixed: "two_decimals x \<Longrightarrow> Math_round (x * 100) / 100 = x"
proof -
  assume "two_decimals x"
  then have e: "of_int \<lfloor>x * 100\<rfloor> = x * 100" unfolding two_decimals_def .
  have "Math_round (of_int \<lfloor>x * 100\<rfloor>) = of_int \<lfloor>x * 100\<rfloor>"
    by (rule Math_round_of_int)
  then have "Math_round (x * 100) = x * 100" unfolding e .
  then show ?thesis by simp
qed

lemma two_decimals_round2: "two_decimals (Math_round y / 100)"
  by (simp add: two_decimals_def Math_round_def)

lemma two_decimals_0: "two_decimals 0"
  by (simp add: two_decimals_def)

lemma two_decimals_of_int: "two_decimals (of_int k)"
proof -
  have "(of_int k :: number) * 100 = of_int (k * 100)" by simp
  then show ?thesis unfolding two_decimals_def by (simp only: floor_of_int)
qed

lemma percent_round_range:
  fixes a b :: number
  assumes "0 \<le> a" "a \<le> b" "0 < b"
  shows "0 \<le> Math_round ((a / b) * 100 * 100) / 100 \<and> Math_round ((a / b) * 100 * 100) / 100 \<le> 100"
proof -
  define y where "y = (a / b) * 100 * 100"
  have q: "0 \<le> a / b" "a / b \<le> 1" using assms by simp_all
  then have y: "0 \<le> y" "y \<le> 10000" by (simp_all add: y_def)
  have "0 \<le> \<lfloor>y + 1 / 2\<rfloor>" using y(1) by simp
  moreover have "\<lfloor>y + 1 / 2\<rfloor> \<le> 10000" using y(2) by linarith
  ultimately have "0 \<le> (of_int \<lfloor>y + 1 / 2\<rfloor> :: number)" "(of_int \<lfloor>y + 1 / 2\<rfloor> :: number) \<le> 10000"
    by simp_all
  then show ?thesis unfolding y_def [symmetric] Math_round_def by simp
qed

lemma computeMetrics_errorRatePercentage:
  "errorRatePercentage (computeMetrics R d) =
     (if R = [] then 0
      else Math_round ((of_nat (length R - length (filter success R)) / of_nat (length R))
                         * 100 * 100) / 100)"
  by (simp add: computeMetrics_def Let_def)

lemma computeMetrics_timeoutRatePercentage:
  "timeoutRatePercentage (computeMetrics R d) =
     (if R = [] then 0
      else Math_round ((of_nat (length (filter (\<lambda>r. error r = Some ''timeout'') R))
                          / of_nat (length R)) * 100 * 100) / 100)"
  by (simp add: computeMetrics_def Let_def)

lemma computeMetrics_percent_range:
  "0 \<le> errorRatePercentage (computeMetrics R d) \<and> errorRatePercentage (computeMetrics R d) \<le> 100
   \<and> 0 \<le> timeoutRatePercentage (computeMetrics R d)
   \<and> timeoutRatePercentage (computeMetrics R d) \<le> 100"
proof (cases "R = []")
  case True
  then show ?thesis
    by (simp add: computeMetrics_errorRatePercentage computeMetrics_timeoutRatePercentage)
next
  case False
  then have L: "(0 :: number) < of_nat (length R)" by simp
  have a: "(0 :: number) \<le> of_nat (length R - length (filter success R))"
    "(of_nat (length R - length (filter success R)) :: number) \<le> of_nat (length R)"
    by simp_all
  have b: "(0 :: number) \<le> of_nat (length (filter (\<lambda>r. error r = Some ''timeout'') R))"
    "(of_nat (length (filter (\<lambda>r. error r = Some ''timeout'') R)) :: number) \<le> of_nat (length R)"
    by simp_all
  from percent_round_range [OF a L] percent_round_range [OF b L] False show ?thesis
    by (simp only: computeMetrics_errorRatePercentage computeMetrics_timeoutRatePercentage
        if_False simp_thms)
qed

lemma two_decimals_percentages:
  "two_decimals (errorRatePercentage (computeMetrics R d))
   \<and> two_decimals (timeoutRatePercentage (computeMetrics R d))"
  by (simp add: computeMetrics_errorRatePercentage computeMetrics_timeoutRatePercentage
      two_decimals_round2 two_decimals_0)

lemma two_decimals_rounded_latencies:
  "two_decimals (avgResponseTime (computeMetrics R d))
   \<and> two_decimals (p95ResponseTime (computeMetrics R d))
   \<and> two_decimals (p99ResponseTime (computeMetrics R d))"
  by (simp add: computeMetrics_avgResponseTime computeMetrics_p95ResponseTime
      computeMetrics_p99ResponseTime two_decimals_round2 two_decimals_0)

lemma min_max_in_successTimes:
  assumes "successTimes R \<noteq> []"
  shows "minResponseTime (computeMetrics R d) \<in> set (successTimes R)
         \<and> maxResponseTime (computeMetrics R d) \<in> set (successTimes R)"
proof -
  define v where "v = sort (successTimes R)"
  have v: "v \<noteq> []" "set v = set (successTimes R)"
    using assms by (simp_all add: v_def sort_eq_Nil_iff)
  from v(1) have "0 < length v" by simp
  then have "v ! 0 \<in> set v" "v ! (length v - 1) \<in> set v"
    by (simp_all only: nth_mem diff_less zero_less_one)
  then show ?thesis using assms v(2)
    by (simp add: computeMetrics_minResponseTime computeMetrics_maxResponseTime v_def)
qed

text \<open>
  Claim C9, as the specification states it, fails for the minimum and the maximum: the
  source returns them as they stand in the result list, so a single success of 10.004 ms
  gives a minimum and a maximum of 10.004.
\<close>

theorem computeMetrics_rounding_counterexample:
  "minResponseTime (computeMetrics (successes [2501 / 250]) 1) = 2501 / 250
   \<and> \<not> two_decimals (minResponseTime (computeMetrics (successes [2501 / 250]) 1))
   \<and> maxResponseTime (computeMetrics (successes [2501 / 250]) 1) = 2501 / 250
   \<and> \<not> two_decimals (maxResponseTime (computeMetrics (successes [2501 / 250]) 1))"
  by (simp add: computeMetrics_minResponseTime computeMetrics_maxResponseTime successTimes_def
      successes_def two_decimals_def)

text \<open>
  Claim C9, amended. For every result list and duration, the average, the P95 and the P99
  are rounded to two decimals, and the error rate and the timeout rate lie in \<open>[0, 100]\<close>
  and are rounded to two decimals. The minimum and the maximum are successful response
  times of the list, unrounded; they have two decimals when every successful response
  time has.
\<close>

theorem computeMetrics_rounding:
  "two_decimals (avgResponseTime (computeMetrics R d))
   \<and> two_decimals (p95ResponseTime (computeMetrics R d))
   \<and> two_decimals (p99ResponseTime (computeMetrics R d))
   \<and> two_decimals (errorRatePercentage (computeMetrics R d))
   \<and> two_decimals (timeoutRatePercentage (computeMetrics R d))
   \<and> 0 \<le> errorRatePercentage (computeMetrics R d)
   \<and> errorRatePercentage (computeMetrics R d) \<le> 100
   \<and> 0 \<le> timeoutRatePercentage (computeMetrics R d)
   \<and> timeoutRatePercentage (computeMetrics R d) \<le> 100
   \<and> (successTimes R \<noteq> [] \<longrightarrow>
        minResponseTime (computeMetrics R d) \<in> set (successTimes R)
        \<and> maxResponseTime (computeMetrics R d) \<in> set (successTimes R))
   \<and> ((\<forall>t \<in> set (successTimes R). two_decimals t) \<longrightarrow>
        two_decimals (minResponseTime (computeMetrics R d))
        \<and> two_decimals (maxResponseTime (computeMetrics R d)))"
proof -
  have mm: "two_decimals (minResponseTime (computeMetrics R d))
        \<and> two_decimals (maxResponseTime (computeMetrics R d))"
    if h: "\<forall>t \<in> set (successTimes R). two_decimals t"
  proof (cases "successTimes R = []")
    case True
    then show ?thesis
      by (simp add: computeMetrics_minResponseTime computeMetrics_maxResponseTime two_decimals_0)
  next
    case False
    from min_max_in_successTimes [OF False, of d] h show ?thesis by blast
  qed
  from two_decimals_rounded_latencies [of R d] two_decimals_percentages [of R d]
    computeMetrics_percent_range [of R d] min_max_in_successTimes [of R d] mm
  show ?thesis by blast
qed

theorem computeMetrics_rounding_witness:
  "list_all two_decimals (successTimes (successes [10, 20, 30, 40, 50, 60, 70, 80, 90, 100]))
   \<and> minResponseTime (computeMetrics (successes [10, 20, 30, 40, 50, 60, 70, 80, 90, 100]) 10) = 10
   \<and> two_decimals
        (minResponseTime (computeMetrics (successes [10, 20, 30, 40, 50, 60, 70, 80, 90, 100]) 10))
   \<and> maxResponseTime (computeMetrics (successes [10, 20, 30, 40, 50, 60, 70, 80, 90, 100]) 10) = 100
   \<and> two_decimals
        (maxResponseTime (computeMetrics (successes [10, 20, 30, 40, 50, 60, 70, 80, 90, 100]) 10))"
proof -
  have h: "\<forall>t \<in> set (successTimes (successes [10, 20, 30, 40, 50, 60, 70, 80, 90, 100])).
             two_decimals t"
    by (simp add: successTimes_def successes_def two_decimals_def)
  have v: "minResponseTime (computeMetrics (successes [10, 20, 30, 40, 50, 60, 70, 80, 90, 100]) 10) = 10"
    "maxResponseTime (computeMetrics (successes [10, 20, 30, 40, 50, 60, 70, 80, 90, 100]) 10) = 100"
    by (simp_all add: computeMetrics_minResponseTime computeMetrics_maxResponseTime
        successTimes_def successes_def)
  from computeMetrics_rounding [of "successes [10, 20, 30, 40, 50, 60, 70, 80, 90, 100]" 10] h
  have "two_decimals
        (minResponseTime (computeMetrics (successes [10, 20, 30, 40, 50, 60, 70, 80, 90, 100]) 10))
     \<and> two_decimals
        (maxResponseTime (computeMetrics (successes [10, 20, 30, 40, 50, 60, 70, 80, 90, 100]) 10))"
    by blast
  then show ?thesis using h v by (simp only: list_all_iff simp_thms)
qed

section \<open>Order of the latency metrics\<close>

lemma sorted_nth_int_mono:
  fixes v :: "number list"
  assumes "sorted v" "0 \<le> a" "a \<le> b" "b < int (length v)"
  shows "v ! nat a \<le> v ! nat b"
  using assms by (intro sorted_nth_mono) auto

lemma interpolate_at_bounds:
  assumes "sorted v" "0 \<le> i" "i \<le> of_nat (length v) - 1"
  shows "v ! nat \<lfloor>i\<rfloor> \<le> interpolate_at v i \<and> interpolate_at v i \<le> v ! nat \<lceil>i\<rceil>"
proof -
  define a where "a = v ! nat \<lfloor>i\<rfloor>"
  define b where "b = v ! nat \<lceil>i\<rceil>"
  define f where "f = i - of_int \<lfloor>i\<rfloor>"
  have "i \<le> of_int (int (length v) - 1)" using assms(3) by simp
  then have "\<lceil>i\<rceil> \<le> int (length v) - 1" by (simp only: ceiling_le_iff)
  then have "\<lceil>i\<rceil> < int (length v)" by simp
  moreover have "0 \<le> \<lfloor>i\<rfloor>" using assms(2) by simp
  moreover have "\<lfloor>i\<rfloor> \<le> \<lceil>i\<rceil>" by (rule floor_le_ceiling)
  ultimately have ab: "a \<le> b" unfolding a_def b_def using assms(1)
    by (intro sorted_nth_int_mono)
  have f0: "0 \<le> f" and f1: "f \<le> 1" unfolding f_def by linarith+
  have "0 \<le> f * (b - a)" using f0 ab by simp
  moreover have "f * (b - a) \<le> 1 * (b - a)" using f1 ab by (intro mult_right_mono) simp_all
  ultimately have "a \<le> a + f * (b - a) \<and> a + f * (b - a) \<le> b" by simp
  then show ?thesis by (simp add: interpolate_at_def a_def b_def f_def)
qed

lemma interpolate_at_mono:
  assumes "sorted v" "0 \<le> i" "i \<le> j" "j \<le> of_nat (length v) - 1"
  shows "interpolate_at v i \<le> interpolate_at v j"
proof (cases "\<lfloor>i\<rfloor> = \<lfloor>j\<rfloor>")
  case False
  then have lt: "\<lfloor>i\<rfloor> < \<lfloor>j\<rfloor>" using floor_mono [OF assms(3)] by simp
  have "i \<le> of_int \<lfloor>j\<rfloor>"
  proof (rule ccontr)
    assume "\<not> i \<le> of_int \<lfloor>j\<rfloor>"
    then have "of_int \<lfloor>j\<rfloor> \<le> i" by simp
    then have "\<lfloor>j\<rfloor> \<le> \<lfloor>i\<rfloor>" by (simp add: le_floor_iff)
    then show False using lt by simp
  qed
  then have c: "\<lceil>i\<rceil> \<le> \<lfloor>j\<rfloor>" by (simp only: ceiling_le_iff)
  have "of_int \<lfloor>j\<rfloor> \<le> of_nat (length v) - (1 :: number)"
    using assms(4) of_int_floor_le [of j] by linarith
  then have "of_int \<lfloor>j\<rfloor> \<le> (of_int (int (length v) - 1) :: number)"
    by simp
  then have "\<lfloor>j\<rfloor> \<le> int (length v) - 1" by (simp only: of_int_le_iff)
  then have jl: "\<lfloor>j\<rfloor> < int (length v)" by simp
  have i0: "0 \<le> \<lceil>i\<rceil>" using assms(2) by (simp add: ceiling_mono [of 0, simplified] order.trans [OF _ le_of_int_ceiling])
  have "interpolate_at v i \<le> v ! nat \<lceil>i\<rceil>"
    using interpolate_at_bounds [of v i] assms by simp
  also have "\<dots> \<le> v ! nat \<lfloor>j\<rfloor>"
    using assms(1) i0 c jl by (rule sorted_nth_int_mono)
  also have "\<dots> \<le> interpolate_at v j"
    using interpolate_at_bounds [of v j] assms by simp
  finally show ?thesis .
next
  case True
  show ?thesis
  proof (cases "i = of_int \<lfloor>i\<rfloor>")
    case whole: True
    then have "\<lceil>i\<rceil> = \<lfloor>i\<rfloor>" by (metis ceiling_of_int)
    then have "interpolate_at v i = v ! nat \<lfloor>j\<rfloor>"
      by (simp add: interpolate_at_def True)
    also have "\<dots> \<le> interpolate_at v j"
      using interpolate_at_bounds [of v j] assms by simp
    finally show ?thesis .
  next
    case part: False
    have ci: "\<lceil>i\<rceil> = \<lfloor>i\<rfloor> + 1" using part by (simp add: ceiling_altdef)
    have "j \<noteq> of_int \<lfloor>j\<rfloor>"
    proof
      assume "j = of_int \<lfloor>j\<rfloor>"
      then have "j = of_int \<lfloor>i\<rfloor>" using True by simp
      then have "i \<le> of_int \<lfloor>i\<rfloor>" using assms(3) by simp
      then show False using part of_int_floor_le [of i] by simp
    qed
    then have cj: "\<lceil>j\<rceil> = \<lfloor>i\<rfloor> + 1" using True by (simp add: ceiling_altdef)
    define a where "a = v ! nat \<lfloor>i\<rfloor>"
    define b where "b = v ! nat (\<lfloor>i\<rfloor> + 1)"
    have "v ! nat \<lfloor>i\<rfloor> \<le> interpolate_at v i \<and> interpolate_at v i \<le> v ! nat \<lceil>i\<rceil>"
      using interpolate_at_bounds [of v i] assms by simp
    then have ab: "a \<le> b" unfolding a_def b_def ci by simp
    have "(i - of_int \<lfloor>i\<rfloor>) * (b - a) \<le> (j - of_int \<lfloor>i\<rfloor>) * (b - a)"
      using assms(3) ab by (intro mult_right_mono) simp_all
    then show ?thesis
      by (simp add: interpolate_at_def True [symmetric] ci cj a_def b_def)
  qed
qed

lemma sum_list_bounds:
  fixes xs :: "number list"
  assumes "\<forall>x \<in> set xs. lo \<le> x \<and> x \<le> hi"
  shows "of_nat (length xs) * lo \<le> sum_list xs \<and> sum_list xs \<le> of_nat (length xs) * hi"
  using assms
proof (induction xs)
  case Nil
  show ?case by simp
next
  case (Cons x xs)
  then have "lo \<le> x" "x \<le> hi"
    and "of_nat (length xs) * lo \<le> sum_list xs" "sum_list xs \<le> of_nat (length xs) * hi"
    by simp_all
  moreover have "of_nat (length (x # xs)) * lo = lo + of_nat (length xs) * lo"
    "of_nat (length (x # xs)) * hi = hi + of_nat (length xs) * hi"
    by (simp_all add: distrib_right)
  ultimately show ?case by simp
qed

lemma mean_bounds:
  fixes xs :: "number list"
  assumes "xs \<noteq> []" "\<forall>x \<in> set xs. lo \<le> x \<and> x \<le> hi"
  shows "lo \<le> sum_list xs / of_nat (length xs) \<and> sum_list xs / of_nat (length xs) \<le> hi"
proof -
  have L: "(0 :: number) < of_nat (length xs)" using assms(1) by simp
  from sum_list_bounds [OF assms(2)] L show ?thesis
    by (simp add: pos_le_divide_eq pos_divide_le_eq mult.commute)
qed

lemma sorted_first_last:
  fixes v :: "number list"
  assumes "sorted v" "x \<in> set v"
  shows "v ! 0 \<le> x \<and> x \<le> v ! (length v - 1)"
proof -
  from assms(2) obtain k where k: "k < length v" "x = v ! k" by (auto simp add: in_set_conv_nth)
  then show ?thesis using assms(1) by (auto intro: sorted_nth_mono)
qed

lemma interpolate_at_first: "interpolate_at v 0 = v ! 0"
  by (simp add: interpolate_at_def)

lemma interpolate_at_of_nat: "interpolate_at v (of_nat k) = v ! k"
  by (simp add: interpolate_at_def)

lemma interpolate_at_last:
  assumes "v \<noteq> []"
  shows "interpolate_at v (of_nat (length v) - 1) = v ! (length v - 1)"
proof -
  obtain x xs where v: "v = x # xs" using assms by (cases v) auto
  have "(of_nat (length v) - 1 :: number) = of_nat (length v - 1)"
    unfolding v by simp
  then show ?thesis by (simp only: interpolate_at_of_nat)
qed

lemma percentile_mono:
  assumes "sorted v" "v \<noteq> []" "0 \<le> p" "p \<le> q" "q \<le> 1"
  shows "v ! 0 \<le> percentile v p" "percentile v p \<le> percentile v q"
    "percentile v q \<le> v ! (length v - 1)"
proof -
  define n where "n = (of_nat (length v) - 1 :: number)"
  have n0: "0 \<le> n" using assms(2) by (cases v) (simp_all add: n_def)
  have a: "0 \<le> n * p" using n0 assms(3) by simp
  have b: "n * p \<le> n * q" using n0 assms(4) by (rule mult_left_mono [rotated])
  have "n * q \<le> n * 1" using n0 assms(5) by (rule mult_left_mono [rotated])
  then have c: "n * q \<le> n" by simp
  have P: "percentile v p = interpolate_at v (n * p)" "percentile v q = interpolate_at v (n * q)"
    using assms(2) by (simp_all add: percentile_interpolate_at spec_interpolation_def n_def)
  have "interpolate_at v 0 \<le> interpolate_at v (n * p)"
    using assms(1) _ a by (rule interpolate_at_mono) (use b c in \<open>simp_all add: n_def [symmetric]\<close>)
  then show "v ! 0 \<le> percentile v p" by (simp add: P interpolate_at_first)
  show "percentile v p \<le> percentile v q"
    unfolding P using assms(1) a b by (rule interpolate_at_mono) (use c in \<open>simp add: n_def [symmetric]\<close>)
  have "interpolate_at v (n * q) \<le> interpolate_at v n"
    using assms(1) _ c by (rule interpolate_at_mono) (use a b in \<open>simp_all add: n_def [symmetric]\<close>)
  then show "percentile v q \<le> v ! (length v - 1)"
    using interpolate_at_last [OF assms(2)] by (simp add: P n_def)
qed

text \<open>
  Claim C7, as the specification states it, fails. With twenty immediate successes and one
  of 2100 ms the average is 100 and the P95 is 0: the average is above the P95. With a
  single success of 10.004 ms the minimum is 10.004 and the average, rounded, is 10: the
  minimum is above the average.
\<close>

theorem computeMetrics_latency_order_counterexample:
  "avgResponseTime (computeMetrics (successes skewed_times) 1) = 100
   \<and> p95ResponseTime (computeMetrics (successes skewed_times) 1) = 0
   \<and> \<not> avgResponseTime (computeMetrics (successes skewed_times) 1)
         \<le> p95ResponseTime (computeMetrics (successes skewed_times) 1)
   \<and> minResponseTime (computeMetrics (successes [2501 / 250]) 1) = 2501 / 250
   \<and> avgResponseTime (computeMetrics (successes [2501 / 250]) 1) = 10
   \<and> \<not> minResponseTime (computeMetrics (successes [2501 / 250]) 1)
         \<le> avgResponseTime (computeMetrics (successes [2501 / 250]) 1)"
proof -
  have a: "avgResponseTime (computeMetrics (successes skewed_times) 1) = 100"
    by (simp add: computeMetrics_avgResponseTime successTimes_def successes_def
        skewed_times_def Math_round_def)
  have p: "p95ResponseTime (computeMetrics (successes skewed_times) 1) = 0"
    by (simp add: computeMetrics_p95ResponseTime successTimes_def successes_def
        skewed_times_def percentile_def Math_round_def Let_def)
  have m: "minResponseTime (computeMetrics (successes [2501 / 250]) 1) = 2501 / 250"
    by (simp add: computeMetrics_minResponseTime successTimes_def successes_def)
  have b: "avgResponseTime (computeMetrics (successes [2501 / 250]) 1) = 10"
    by (simp add: computeMetrics_avgResponseTime successTimes_def successes_def Math_round_def)
  show ?thesis unfolding a p m b by simp
qed

text \<open>
  Claim C7, amended. For every result list with at least one success whose successful
  response times have two decimals at most (whole milliseconds, as the requester
  records them), and every duration: minimum \<open>\<le>\<close> average \<open>\<le>\<close> maximum, and
  minimum \<open>\<le>\<close> P95 \<open>\<le>\<close> P99 \<open>\<le>\<close> maximum.
\<close>

theorem computeMetrics_latency_order:
  assumes "successTimes R \<noteq> []" and "\<forall>t \<in> set (successTimes R). two_decimals t"
  shows "minResponseTime (computeMetrics R d) \<le> avgResponseTime (computeMetrics R d)
         \<and> avgResponseTime (computeMetrics R d) \<le> maxResponseTime (computeMetrics R d)
         \<and> minResponseTime (computeMetrics R d) \<le> p95ResponseTime (computeMetrics R d)
         \<and> p95ResponseTime (computeMetrics R d) \<le> p99ResponseTime (computeMetrics R d)
         \<and> p99ResponseTime (computeMetrics R d) \<le> maxResponseTime (computeMetrics R d)"
proof -
  define ts where "ts = successTimes R"
  define v where "v = sort ts"
  define lo where "lo = v ! 0"
  define hi where "hi = v ! (length v - 1)"
  define mean where "mean = sum_list ts / of_nat (length ts)"
  define r2 where "r2 = (\<lambda>x :: number. Math_round (x * 100) / 100)"
  have ts: "ts \<noteq> []" using assms(1) by (simp add: ts_def)
  have v: "v \<noteq> []" "sorted v" "set v = set ts" using ts by (simp_all add: v_def sort_eq_Nil_iff)
  have fields:
    "minResponseTime (computeMetrics R d) = lo"
    "maxResponseTime (computeMetrics R d) = hi"
    "avgResponseTime (computeMetrics R d) = r2 mean"
    "p95ResponseTime (computeMetrics R d) = r2 (percentile v (95 / 100))"
    "p99ResponseTime (computeMetrics R d) = r2 (percentile v (99 / 100))"
    using assms(1)
    by (simp_all add: computeMetrics_minResponseTime computeMetrics_maxResponseTime
        computeMetrics_avgResponseTime computeMetrics_p95ResponseTime
        computeMetrics_p99ResponseTime lo_def hi_def mean_def r2_def v_def ts_def)
  have "lo \<in> set (successTimes R)" "hi \<in> set (successTimes R)"
    using min_max_in_successTimes [OF assms(1), of d] by (simp_all add: fields)
  then have "two_decimals lo" "two_decimals hi" using assms(2) by blast+
  then have fixd: "r2 lo = lo" "r2 hi = hi" by (simp_all add: r2_def round2_fixed)
  have mono: "r2 x \<le> r2 y" if "x \<le> y" for x y
    unfolding r2_def using that by (rule round2_mono)
  have "\<forall>x \<in> set ts. lo \<le> x \<and> x \<le> hi"
    using sorted_first_last [OF v(2)] v(3) by (simp add: lo_def hi_def)
  from mean_bounds [OF ts this] have mean: "lo \<le> mean" "mean \<le> hi"
    by (simp_all add: mean_def)
  have p: "lo \<le> percentile v (95 / 100)"
    "percentile v (95 / 100) \<le> percentile v (99 / 100)"
    "percentile v (99 / 100) \<le> hi"
    using percentile_mono [OF v(2) v(1), of "95 / 100" "99 / 100"] percentile_mono [OF v(2) v(1), of "95 / 100" "99 / 100"]
    by (simp_all add: lo_def hi_def)
  have "lo \<le> r2 mean" using mono [OF mean(1)] by (simp add: fixd)
  moreover have "r2 mean \<le> hi" using mono [OF mean(2)] by (simp add: fixd)
  moreover have "lo \<le> r2 (percentile v (95 / 100))" using mono [OF p(1)] by (simp add: fixd)
  moreover have "r2 (percentile v (95 / 100)) \<le> r2 (percentile v (99 / 100))"
    using p(2) by (rule mono)
  moreover have "r2 (percentile v (99 / 100)) \<le> hi" using mono [OF p(3)] by (simp add: fixd)
  ultimately show ?thesis by (simp add: fields)
qed

theorem computeMetrics_latency_order_witness:
  "successTimes (successes [10, 20, 30, 40, 50, 60, 70, 80, 90, 100]) \<noteq> []
   \<and> list_all two_decimals (successTimes (successes [10, 20, 30, 40, 50, 60, 70, 80, 90, 100]))
   \<and> minResponseTime (computeMetrics (successes [10, 20, 30, 40, 50, 60, 70, 80, 90, 100]) 10)
       \<le> avgResponseTime (computeMetrics (successes [10, 20, 30, 40, 50, 60, 70, 80, 90, 100]) 10)
   \<and> avgResponseTime (computeMetrics (successes [10, 20, 30, 40, 50, 60, 70, 80, 90, 100]) 10)
       \<le> maxResponseTime (computeMetrics (successes [10, 20, 30, 40, 50, 60, 70, 80, 90, 100]) 10)
   \<and> minResponseTime (computeMetrics (successes [10, 20, 30, 40, 50, 60, 70, 80, 90, 100]) 10)
       \<le> p95ResponseTime (computeMetrics (successes [10, 20, 30, 40, 50, 60, 70, 80, 90, 100]) 10)
   \<and> p95ResponseTime (computeMetrics (successes [10, 20, 30, 40, 50, 60, 70, 80, 90, 100]) 10)
       \<le> p99ResponseTime (computeMetrics (successes [10, 20, 30, 40, 50, 60, 70, 80, 90, 100]) 10)
   \<and> p99ResponseTime (computeMetrics (successes [10, 20, 30, 40, 50, 60, 70, 80, 90, 100]) 10)
       \<le> maxResponseTime (computeMetrics (successes [10, 20, 30, 40, 50, 60, 70, 80, 90, 100]) 10)"
proof -
  have n: "successTimes (successes [10, 20, 30, 40, 50, 60, 70, 80, 90, 100]) \<noteq> []"
    by (simp add: successTimes_def successes_def)
  have h: "\<forall>t \<in> set (successTimes (successes [10, 20, 30, 40, 50, 60, 70, 80, 90, 100])).
             two_decimals t"
    by (simp add: successTimes_def successes_def two_decimals_def)
  from computeMetrics_latency_order [OF n h, of 10] n h show ?thesis
    by (simp only: list_all_iff simp_thms)
qed

end
